theory Spec2Isabelle
  imports Complex_Main
begin

section \<open>The quota allocator (\<^verbatim>\<open>calculate_question_distribution\<close>, main/app.py)\<close>

text \<open>
  A Python \<^verbatim>\<open>Dict[str, float]\<close> keeps its keys in insertion order, and the allocator's
  tie-breaking depends on that order, so a distribution is an association list (with
  pairwise distinct keys where it stands for a dict). Python floats are read as real
  numbers: every arithmetic step is the exact one. The concrete inputs evaluated below use
  weights that are binary fractions, where the float computation is exact too.
\<close>

type_synonym distribution = "(string \<times> real) list"

record config =
  question_type :: string
  difficulty :: string
  blooms_level :: string
  count :: int

record item = config +
  exact_count :: real

text \<open>Python's \<^verbatim>\<open>int(x)\<close> on a float truncates towards zero.\<close>

definition py_int :: "real \<Rightarrow> int" where
  "py_int x = (if 0 \<le> x then \<lfloor>x\<rfloor> else \<lceil>x\<rceil>)"

text \<open>\<^verbatim>\<open>d[k] = v\<close>: an existing key keeps its position, a new key goes last.\<close>

fun dict_set :: "'k \<Rightarrow> 'v \<Rightarrow> ('k \<times> 'v) list \<Rightarrow> ('k \<times> 'v) list" where
  "dict_set k v [] = [(k, v)]"
| "dict_set k v ((k', v') # ps) =
     (if k' = k then (k, v) # ps else (k', v') # dict_set k v ps)"

text \<open>\<^verbatim>\<open>key = f"{q_type}_{difficulty}_{blooms}"\<close>\<close>

definition combo_key :: "string \<Rightarrow> string \<Rightarrow> string \<Rightarrow> string" where
  "combo_key q d b = q @ ''_'' @ d @ ''_'' @ b"

text \<open>The assignments \<^verbatim>\<open>fractional_distribution[key] = {...}\<close> in the order in which
  the three nested \<^verbatim>\<open>for\<close> loops execute them.\<close>

definition assignments ::
  "int \<Rightarrow> distribution \<Rightarrow> distribution \<Rightarrow> distribution \<Rightarrow> (string \<times> item) list" where
  "assignments N qd dd bd =
     [(combo_key q d b,
       \<lparr>question_type = q, difficulty = d, blooms_level = b,
        count = py_int (of_int N * qr * dr * br),
        exact_count = of_int N * qr * dr * br\<rparr>).
      (q, qr) \<leftarrow> qd, (d, dr) \<leftarrow> dd, (b, br) \<leftarrow> bd]"

definition fractional_distribution ::
  "int \<Rightarrow> distribution \<Rightarrow> distribution \<Rightarrow> distribution \<Rightarrow> (string \<times> item) list" where
  "fractional_distribution N qd dd bd =
     foldl (\<lambda>fd (k, it). dict_set k it fd) [] (assignments N qd dd bd)"

definition current_total :: "(string \<times> item) list \<Rightarrow> int" where
  "current_total fd = sum_list (map (\<lambda>(k, it). count it) fd)"

definition remainder :: "int \<Rightarrow> (string \<times> item) list \<Rightarrow> int" where
  "remainder N fd = N - current_total fd"

definition fractional_part :: "item \<Rightarrow> real" where
  "fractional_part it = exact_count it - of_int (count it)"

text \<open>
  \<^verbatim>\<open>sorted(fd.keys(), key=lambda k: fd[k]['exact_count'] - fd[k]['count'], reverse=True)\<close>.
  Python's sort is stable, also with \<^verbatim>\<open>reverse=True\<close>: entries with equal sort keys keep
  their dict order. That is the stable insertion sort \<^const>\<open>sort_key\<close> on the negated
  sort key. Every key of a dict names exactly one entry, so the entries are sorted and
  their keys taken.
\<close>

definition sorted_entries :: "(string \<times> item) list \<Rightarrow> (string \<times> item) list" where
  "sorted_entries fd = sort_key (\<lambda>(k, it). - fractional_part it) fd"

definition sorted_keys :: "(string \<times> item) list \<Rightarrow> string list" where
  "sorted_keys fd = map fst (sorted_entries fd)"

text \<open>\<^verbatim>\<open>fd[k]['count'] += 1\<close>\<close>

definition add_one :: "string \<Rightarrow> (string \<times> item) list \<Rightarrow> (string \<times> item) list" where
  "add_one k fd = map (\<lambda>(k', it). if k' = k then (k', it\<lparr>count := count it + 1\<rparr>) else (k', it)) fd"

text \<open>
  \<^verbatim>\<open>for i in range(remainder): if i < len(sorted_keys):\<close> add 1 to the count of the
  entry under the \<open>i\<close>-th sorted key:
  the loop body runs for the indices below both \<^verbatim>\<open>remainder\<close> and the number of keys
  (none at all for a negative remainder).
\<close>

definition distribute_remainder :: "int \<Rightarrow> (string \<times> item) list \<Rightarrow> (string \<times> item) list" where
  "distribute_remainder r fd = foldl (\<lambda>fd' k. add_one k fd') fd (take (nat r) (sorted_keys fd))"

text \<open>The final loop keeps the entries with a positive count and drops \<^verbatim>\<open>exact_count\<close>.\<close>

definition clean_up :: "(string \<times> item) list \<Rightarrow> (string \<times> config) list" where
  "clean_up fd =
     [(k, \<lparr>question_type = question_type it, difficulty = difficulty it,
           blooms_level = blooms_level it, count = count it\<rparr>).
      (k, it) \<leftarrow> fd, count it > 0]"

definition calculate_question_distribution ::
  "int \<Rightarrow> distribution \<Rightarrow> distribution \<Rightarrow> distribution \<Rightarrow> (string \<times> config) list" where
  "calculate_question_distribution N qd dd bd =
     (let fd = fractional_distribution N qd dd bd;
          r = remainder N fd
      in clean_up (distribute_remainder r fd))"

definition total_count :: "(string \<times> config) list \<Rightarrow> int" where
  "total_count al = sum_list (map (\<lambda>(k, c). count c) al)"


definition weight_sum :: "distribution \<Rightarrow> real" where
  "weight_sum d = sum_list (map snd d)"


section \<open>\<^verbatim>\<open>normalize_distribution\<close> (src/utils/helpers.py)\<close>


section \<open>The grouper (the body of \<^verbatim>\<open>generate_questions\<close>, main/app.py)\<close>

text \<open>\<^verbatim>\<open>if q_type not in type_groups: type_groups[q_type] = []\<close> followed by
  \<^verbatim>\<open>type_groups[q_type].append(config)\<close>.\<close>

fun dict_append :: "'k \<Rightarrow> 'v \<Rightarrow> ('k \<times> 'v list) list \<Rightarrow> ('k \<times> 'v list) list" where
  "dict_append k v [] = [(k, [] @ [v])]"
| "dict_append k v ((k', vs) # ps) =
     (if k' = k then (k', vs @ [v]) # ps else (k', vs) # dict_append k v ps)"

definition group_by_type :: "(string \<times> config) list \<Rightarrow> (string \<times> config list) list" where
  "group_by_type question_dist =
     foldl (\<lambda>type_groups (key, c). dict_append (question_type c) c type_groups) [] question_dist"

definition total_for_type :: "config list \<Rightarrow> int" where
  "total_for_type configs = sum_list (map count configs)"

text \<open>\<^verbatim>\<open>if k not in d: d[k] = 0\<close> followed by \<^verbatim>\<open>d[k] += x\<close>.\<close>

fun dict_add :: "string \<Rightarrow> real \<Rightarrow> distribution \<Rightarrow> distribution" where
  "dict_add k x [] = [(k, 0 + x)]"
| "dict_add k x ((k', v) # ps) =
     (if k' = k then (k', v + x) # ps else (k', v) # dict_add k x ps)"

definition difficulty_dist_for_type :: "config list \<Rightarrow> distribution" where
  "difficulty_dist_for_type configs =
     foldl (\<lambda>d c. dict_add (difficulty c) (of_int (count c) / of_int (total_for_type configs)) d)
       [] configs"

definition blooms_dist_for_type :: "config list \<Rightarrow> distribution" where
  "blooms_dist_for_type configs =
     foldl (\<lambda>d c. dict_add (blooms_level c) (of_int (count c) / of_int (total_for_type configs)) d)
       [] configs"




section \<open>Artifact names (main/app.py and src/utils/utils_fib.py)\<close>

text \<open>\<^verbatim>\<open>str(n)\<close> for a Python int: decimal digits, a minus sign for a negative number.\<close>

definition digit_char :: "nat \<Rightarrow> char" where
  "digit_char n = ''0123456789'' ! (n mod 10)"

function str_nat :: "nat \<Rightarrow> string" where
  "str_nat n = (if n < 10 then [digit_char n] else str_nat (n div 10) @ [digit_char n])"
  by pat_completeness auto
termination
  by (relation "measure id") auto

declare str_nat.simps [simp del]

definition str_int :: "int \<Rightarrow> string" where
  "str_int i = (if i < 0 then ''-'' @ str_nat (nat (- i)) else str_nat (nat i))"

text \<open>\<^verbatim>\<open>sep.join(parts)\<close>\<close>

fun join :: "string \<Rightarrow> string list \<Rightarrow> string" where
  "join sep [] = []"
| "join sep [x] = x"
| "join sep (x # y # ys) = x @ sep @ join sep (y # ys)"

text \<open>\<^verbatim>\<open>"_".join([f"{diff}{int(prop*100)}" for diff, prop in distribution.items()])\<close>\<close>

definition format_distribution_string :: "distribution \<Rightarrow> string" where
  "format_distribution_string d = join ''_'' (map (\<lambda>(k, p). k @ str_int (py_int (p * 100))) d)"

text \<open>The objective filter of a request: absent, one string or a list of strings; and its
  truth value in an \<^verbatim>\<open>if\<close>.\<close>

datatype objectives = NoObjectives | Objective string | ObjectiveList "string list"

fun truthy :: "objectives \<Rightarrow> bool" where
  "truthy NoObjectives = False"
| "truthy (Objective s) = (s \<noteq> [])"
| "truthy (ObjectiveList l) = (l \<noteq> [])"

text \<open>\<^verbatim>\<open>"lo" + ("_".join([str(obj) for obj in lo]) if isinstance(lo, list) else str(lo))\<close>\<close>

fun obj_str :: "objectives \<Rightarrow> string" where
  "obj_str (ObjectiveList l) = ''lo'' @ join ''_'' l"
| "obj_str (Objective s) = ''lo'' @ s"
| "obj_str NoObjectives = ''lo'' @ ''None''"

text \<open>
  \<^verbatim>\<open>filename_parts\<close>. The list \<^verbatim>\<open>available_keys\<close> comes from the constant
  \<^verbatim>\<open>metadata_keys\<close> of src/utils/constants.py, which is not among the sources, so it
  is a parameter here.
\<close>

definition filename_parts ::
  "string list \<Rightarrow> string \<Rightarrow> distribution \<Rightarrow> distribution \<Rightarrow> objectives \<Rightarrow> string list" where
  "filename_parts keys ch dd bd lo =
     [ch, format_distribution_string dd, format_distribution_string bd]
     @ (if truthy lo \<and> keys \<noteq> [] \<and> ''learning_objectives'' \<in> set keys then [obj_str lo] else [])"

text \<open>
  The name the worker \<^verbatim>\<open>generate_single_question_type_sync\<close> computes. For a kind other
  than the three known ones no branch assigns \<^verbatim>\<open>file_name\<close>, and the worker fails when
  it reads the variable: \<open>None\<close>.
\<close>

definition file_name ::
  "string list \<Rightarrow> string \<Rightarrow> distribution \<Rightarrow> distribution \<Rightarrow> objectives \<Rightarrow> string \<Rightarrow> string option" where
  "file_name keys ch dd bd lo kind =
     (if kind = ''mcq'' then Some (join ''_'' (filename_parts keys ch dd bd lo) @ ''_mcqs.json'')
      else if kind = ''fib'' then Some (join ''_'' (filename_parts keys ch dd bd lo) @ ''_fib.json'')
      else if kind = ''tf'' then Some (join ''_'' (filename_parts keys ch dd bd lo) @ ''_tf.json'')
      else None)"


section \<open>The shared context provider (src/utils/summary_helper.py)\<close>

text \<open>
  The OpenSearch service is outside the program. What \<^verbatim>\<open>create_query_body\<close> and
  \<^verbatim>\<open>execute_search\<close> together do for a chapter name is one of: an exception leaves
  them (building the session or the client, the aggregation query, or reading the hits),
  \<^verbatim>\<open>execute_search\<close> returns \<^verbatim>\<open>None\<close> (it catches a failing search), or it returns
  the concatenated text of the hits. An exception carries its message \<^verbatim>\<open>str(e)\<close>.
\<close>

datatype search_outcome = SearchRaises string | SearchNone | SearchText string

definition retrieve_chapter_chunks ::
  "(string \<Rightarrow> search_outcome) \<Rightarrow> string \<Rightarrow> nat \<Rightarrow> string + string option" where
  "retrieve_chapter_chunks opensearch chapter_name max_chars =
     (if chapter_name = [] then Inl ''Chapter name must be provided.''
      else case opensearch chapter_name of
          SearchRaises e \<Rightarrow> Inl e
        | SearchNone \<Rightarrow> Inr None
        | SearchText chapter_content \<Rightarrow>
            (if chapter_content \<noteq> [] \<and> length chapter_content > max_chars
             then Inr (Some (take max_chars chapter_content
                    @ CHR 0x0A # ''[Content truncated due to size limitations]''))
             else Inr (Some chapter_content)))"

definition summary_marker :: string where
  "summary_marker = CHR 0x0A # ''[Summary truncated - full content available for question generation]''"

definition generate_content_summary_sync :: "(string \<Rightarrow> search_outcome) \<Rightarrow> string \<Rightarrow> string" where
  "generate_content_summary_sync opensearch ch =
     (case retrieve_chapter_chunks opensearch ch 100000 of
        Inl e \<Rightarrow> ''Error retrieving content for chapter '' @ ch @ '': '' @ e
      | Inr None \<Rightarrow> ''No content available for the specified chapter.''
      | Inr (Some chapter_content) \<Rightarrow>
          (if chapter_content = [] then ''No content available for the specified chapter.''
           else let summary_length = min 2000 (length chapter_content);
                    content_summary = take summary_length chapter_content
                in if length chapter_content > summary_length
                   then content_summary @ summary_marker
                   else content_summary))"


section \<open>The orchestrator (\<^verbatim>\<open>generate_questions\<close>, main/app.py)\<close>

text \<open>
  The request body. \<^verbatim>\<open>contentId\<close>, \<^verbatim>\<open>session_id\<close> and the tenant id derived from
  them are handed through unchanged and decide nothing below; they are left out.
\<close>

record request =
  chapter_id :: string
  learning_objectives :: objectives
  total_questions :: int
  question_type_distribution :: distribution
  difficulty_distribution :: distribution
  blooms_taxonomy_distribution :: distribution

text \<open>The questions of one generated JSON file (its \<^verbatim>\<open>"response"\<close> list), each question
  opaque.\<close>

type_synonym question_data = "string list"

text \<open>The arguments of one \<^verbatim>\<open>loop.run_in_executor(executor,
  generate_single_question_type_sync, ...)\<close> call.\<close>

record task =
  t_question_type :: string
  t_configs :: "config list"
  t_content_summary :: string
  t_chapter_id :: string
  t_learning_objectives :: objectives
  t_difficulty_distribution :: distribution
  t_blooms_distribution :: distribution

text \<open>
  What lies outside the program: the search service; the generators together with the
  reading back of the file they wrote (\<open>Inl\<close> the message of the exception either of
  them raised, \<open>Inr\<close> the questions read); the metadata keys; the interpreter's message
  for reading an unassigned local variable; and whether the two DynamoDB tables are there.
\<close>

record env =
  opensearch :: "string \<Rightarrow> search_outcome"
  synthesize :: "task \<Rightarrow> string + question_data"
  available_keys :: "string list"
  unbound_local_message :: string
  history_table :: bool
  events_table :: bool

text \<open>The tuple \<^verbatim>\<open>(question_type, file_name, question_data, error)\<close> a worker returns.\<close>

record worker_result =
  r_question_type :: string
  r_file_name :: "string option"
  r_question_data :: "question_data option"
  r_error :: "string option"

text \<open>
  \<^verbatim>\<open>generate_single_question_type_sync\<close>: every exception inside the worker is caught and
  returned as \<^verbatim>\<open>(question_type, None, None, str(e))\<close>.
\<close>

definition generate_single_question_type_sync :: "env \<Rightarrow> task \<Rightarrow> worker_result" where
  "generate_single_question_type_sync e t =
     (case file_name (available_keys e) (t_chapter_id t) (t_difficulty_distribution t)
             (t_blooms_distribution t) (t_learning_objectives t) (t_question_type t) of
        None \<Rightarrow> \<lparr>r_question_type = t_question_type t, r_file_name = None,
                  r_question_data = None, r_error = Some (unbound_local_message e)\<rparr>
      | Some name \<Rightarrow>
          (case synthesize e t of
             Inl msg \<Rightarrow> \<lparr>r_question_type = t_question_type t, r_file_name = None,
                          r_question_data = None, r_error = Some msg\<rparr>
           | Inr qs \<Rightarrow> \<lparr>r_question_type = t_question_type t, r_file_name = Some name,
                         r_question_data = Some qs, r_error = None\<rparr>))"

definition make_task :: "string \<Rightarrow> request \<Rightarrow> string \<times> config list \<Rightarrow> task" where
  "make_task content_summary req g =
     \<lparr>t_question_type = fst g, t_configs = snd g, t_content_summary = content_summary,
      t_chapter_id = chapter_id req, t_learning_objectives = learning_objectives req,
      t_difficulty_distribution = difficulty_dist_for_type (snd g),
      t_blooms_distribution = blooms_dist_for_type (snd g)\<rparr>"

text \<open>
  The loop over the gathered results. \<^verbatim>\<open>asyncio.gather\<close> returns them in the order
  of submission, whichever worker finished first. A worker catches every exception
  itself, so each result is the tuple and the branch \<^verbatim>\<open>isinstance(result, Exception)\<close>
  is not taken. \<^verbatim>\<open>if error:\<close> is false for \<^verbatim>\<open>None\<close> and for the empty string. The
  two accumulators are locals of \<^verbatim>\<open>generate_questions\<close>; what was appended before a
  \<^verbatim>\<open>raise\<close> stays in them. The result is the message of the raised exception, if
  any, and the two accumulators.
\<close>

fun process_results ::
  "worker_result list \<Rightarrow> string option list \<Rightarrow> (string \<times> question_data option) list \<Rightarrow>
   string option \<times> string option list \<times> (string \<times> question_data option) list" where
  "process_results [] files_generated all_question_data =
     (None, files_generated, all_question_data)"
| "process_results (r # rs) files_generated all_question_data =
     (case r_error r of
        None \<Rightarrow> process_results rs (files_generated @ [r_file_name r])
                  (dict_set (r_question_type r) (r_question_data r) all_question_data)
      | Some msg \<Rightarrow>
          if msg = [] then process_results rs (files_generated @ [r_file_name r])
                  (dict_set (r_question_type r) (r_question_data r) all_question_data)
          else (Some (''Error in '' @ r_question_type r @ '': '' @ msg),
                files_generated, all_question_data))"

text \<open>The record the \<^verbatim>\<open>finally\<close> block puts into the history table (the fields that
  depend on the run).\<close>

record history_item =
  h_status :: string
  h_error_message :: string
  h_files_generated :: "string option list"
  h_response_data :: "(string \<times> question_data option) list"

record response =
  resp_status :: string
  resp_files_generated :: "string option list"
  resp_data :: "(string \<times> question_data option) list"

text \<open>The events written to the events table.\<close>

datatype event = ResponseEvent "string option list" | QuestionGenerated string nat string

definition log_question_events :: "bool \<Rightarrow> string \<Rightarrow> question_data option \<Rightarrow> event list" where
  "log_question_events table kind qd =
     (case qd of
        None \<Rightarrow> []
      | Some questions \<Rightarrow>
          if \<not> table then []
          else map (\<lambda>(i, q). QuestionGenerated kind i q) (enumerate 0 questions))"

text \<open>The calls the coordinator makes, in the order it makes them.\<close>

datatype call = FetchSummary string | SubmitWorker task

text \<open>
  What one run leaves behind: the response (\<open>Inl\<close> is the detail of the
  \<^verbatim>\<open>HTTPException(status_code=500, ...)\<close>), the record put into the history table
  (none when the table is missing), the events put into the events table, and the calls
  made. The request snapshot that \<^verbatim>\<open>log_conversation\<close> writes before any work starts
  holds no generated item and is left out.
\<close>

record outcome =
  o_response :: "string + response"
  o_history :: "history_item option"
  o_events :: "event list"
  o_calls :: "call list"

text \<open>
  The \<^verbatim>\<open>try\<close> block up to the submissions: the summary is fetched first, then the
  allocation is computed and grouped, then one task per group is submitted, each with the
  same summary.
\<close>

definition submitted_tasks :: "env \<Rightarrow> request \<Rightarrow> task list" where
  "submitted_tasks e req =
     (let content_summary = generate_content_summary_sync (opensearch e) (chapter_id req);
          question_dist = calculate_question_distribution (total_questions req)
             (question_type_distribution req) (difficulty_distribution req)
             (blooms_taxonomy_distribution req);
          type_groups = group_by_type question_dist
      in map (make_task content_summary req) type_groups)"

definition generate_questions :: "env \<Rightarrow> request \<Rightarrow> outcome" where
  "generate_questions e req =
     (let tasks = submitted_tasks e req;
          calls = FetchSummary (chapter_id req) # map SubmitWorker tasks;
          results = map (generate_single_question_type_sync e) tasks
      in case process_results results [] [] of
           (Some error_message, files_generated, all_question_data) \<Rightarrow>
             \<lparr>o_response = Inl (''Error generating questions: '' @ error_message),
              o_history =
                (if history_table e
                 then Some \<lparr>h_status = ''error'', h_error_message = error_message,
                            h_files_generated = files_generated,
                            h_response_data = all_question_data\<rparr>
                 else None),
              o_events = [],
              o_calls = calls\<rparr>
         | (None, files_generated, all_question_data) \<Rightarrow>
             \<lparr>o_response = Inr \<lparr>resp_status = ''success'',
                                 resp_files_generated = files_generated,
                                 resp_data = all_question_data\<rparr>,
              o_history =
                (if history_table e
                 then Some \<lparr>h_status = ''success'', h_error_message = [],
                            h_files_generated = files_generated,
                            h_response_data = all_question_data\<rparr>
                 else None),
              o_events =
                (if events_table e then [ResponseEvent files_generated] else [])
                @ concat (map (\<lambda>(kind, qd). log_question_events (events_table e) kind qd)
                            all_question_data),
              o_calls = calls\<rparr>)"


text \<open>Whether a call of the coordinator is the context fetch.\<close>

fun is_fetch :: "call \<Rightarrow> bool" where
  "is_fetch (FetchSummary ch) = True"
| "is_fetch (SubmitWorker t) = False"

section \<open>Properties of the allocator\<close>

subsection \<open>The dict of combinations\<close>




lemma sum_list_inner: "sum_list (map (\<lambda>(b, br). c * br) bd) = c * weight_sum bd"
  by (induction bd) (auto simp: weight_sum_def algebra_simps)























subsection \<open>C1: the returned counts and the requested total\<close>




subsection \<open>C7: the range of the remainder\<close>





subsection \<open>C3: no normalization and no failure in the allocator\<close>

















subsection \<open>C6: ranking and ties\<close>

lemma map_fst_sorted_entries_distinct:
  "distinct (map fst fd) \<Longrightarrow> distinct (sorted_keys fd)"
  by (simp add: sorted_keys_def sorted_entries_def distinct_map)

lemma map_of_add_one:
  "map_of (add_one k' fd) k =
     map_option (\<lambda>it. if k = k' then it\<lparr>count := count it + 1\<rparr> else it) (map_of fd k)"
  by (induction fd) (auto simp: add_one_def)

lemma map_of_foldl_add_one:
  "distinct ks \<Longrightarrow>
   map_of (foldl (\<lambda>fd' k. add_one k fd') fd ks) k =
     map_option (\<lambda>it. if k \<in> set ks then it\<lparr>count := count it + 1\<rparr> else it) (map_of fd k)"
proof (induction ks arbitrary: fd)
  case Nil
  then show ?case by (simp add: option.map_ident)
next
  case (Cons a ks)
  then have "a \<notin> set ks" "distinct ks" by auto
  with Cons.IH[of "add_one a fd"] show ?case
    by (cases "map_of fd k") (auto simp: map_of_add_one)
qed


text \<open>
  C6, as stated, fails. Ties between equal fractional parts are broken by the position
  of the combination in the dict, that is by the iteration order of the input dicts,
  not by an order on the combination keys. The two kind distributions below are the same
  mapping (Python's \<^verbatim>\<open>==\<close> on dicts ignores the order of the keys), both combinations
  have the fractional part 0.5, and the single extra item goes to \<open>mcq\<close> in one run and
  to \<open>tf\<close> in the other: no fixed order on the keys ranks them both ways.
\<close>

theorem tie_break_counterexample:
  "set [(''mcq'', 1/2 :: real), (''tf'', 1/2)] = set [(''tf'', 1/2), (''mcq'', 1/2)] \<and>
   calculate_question_distribution 1 [(''mcq'', 1/2), (''tf'', 1/2)]
       [(''basic'', 1)] [(''remember'', 1)]
     = [(''mcq_basic_remember'',
         \<lparr>question_type = ''mcq'', difficulty = ''basic'', blooms_level = ''remember'',
          count = 1\<rparr>)] \<and>
   calculate_question_distribution 1 [(''tf'', 1/2), (''mcq'', 1/2)]
       [(''basic'', 1)] [(''remember'', 1)]
     = [(''tf_basic_remember'',
         \<lparr>question_type = ''tf'', difficulty = ''basic'', blooms_level = ''remember'',
          count = 1\<rparr>)]"
proof (intro conjI)
  show "set [(''mcq'', 1/2 :: real), (''tf'', 1/2)] = set [(''tf'', 1/2), (''mcq'', 1/2)]"
    by auto
  show "calculate_question_distribution 1 [(''mcq'', 1/2), (''tf'', 1/2)]
       [(''basic'', 1)] [(''remember'', 1)]
     = [(''mcq_basic_remember'',
         \<lparr>question_type = ''mcq'', difficulty = ''basic'', blooms_level = ''remember'',
          count = 1\<rparr>)]"
    by code_simp
  show "calculate_question_distribution 1 [(''tf'', 1/2), (''mcq'', 1/2)]
       [(''basic'', 1)] [(''remember'', 1)]
     = [(''tf_basic_remember'',
         \<lparr>question_type = ''tf'', difficulty = ''basic'', blooms_level = ''remember'',
          count = 1\<rparr>)]"
    by code_simp
qed


text \<open>
  C6, amended: the allocator ranks the combinations by descending fractional part with a
  stable sort, so combinations with equal fractional parts keep their dict order (the
  order in which the nested loops over the three input dicts created them); the first
  \<open>remainder\<close> keys of that ranking, and no others, receive one extra item each. The
  allocation is thus a function of the three dicts including the order of their keys.
\<close>

theorem sorted_entries_stable:
  "sorted_wrt (\<lambda>a b. fractional_part (snd b) \<le> fractional_part (snd a)) (sorted_entries fd) \<and>
   (\<forall>x. filter (\<lambda>(k, it). fractional_part it = x) (sorted_entries fd)
        = filter (\<lambda>(k, it). fractional_part it = x) fd) \<and>
   sorted_keys fd = map fst (sorted_entries fd) \<and>
   (distinct (map fst fd) \<longrightarrow>
      (\<forall>k. map_of (distribute_remainder r fd) k =
         map_option (\<lambda>it. if k \<in> set (take (nat r) (sorted_keys fd))
                           then it\<lparr>count := count it + 1\<rparr> else it) (map_of fd k)))"
proof (intro conjI allI impI)
  have "sorted (map (\<lambda>(k, it). - fractional_part it) (sorted_entries fd))"
    unfolding sorted_entries_def by (rule sorted_sort_key)
  then show "sorted_wrt (\<lambda>a b. fractional_part (snd b) \<le> fractional_part (snd a)) (sorted_entries fd)"
    by (simp add: sorted_map split_def)
next
  fix x
  have "filter (\<lambda>e. (\<lambda>(k, it). - fractional_part it) e = - x) (sorted_entries fd)
      = filter (\<lambda>e. (\<lambda>(k, it). - fractional_part it) e = - x) fd"
    unfolding sorted_entries_def by (rule sort_key_stable)
  then show "filter (\<lambda>(k, it). fractional_part it = x) (sorted_entries fd)
        = filter (\<lambda>(k, it). fractional_part it = x) fd"
    by (simp add: split_def)
next
  show "sorted_keys fd = map fst (sorted_entries fd)" by (simp add: sorted_keys_def)
next
  fix k
  assume "distinct (map fst fd)"
  then have "distinct (take (nat r) (sorted_keys fd))"
    by (simp add: map_fst_sorted_entries_distinct)
  then show "map_of (distribute_remainder r fd) k =
         map_option (\<lambda>it. if k \<in> set (take (nat r) (sorted_keys fd))
                           then it\<lparr>count := count it + 1\<rparr> else it) (map_of fd k)"
    unfolding distribute_remainder_def by (rule map_of_foldl_add_one)
qed



theorem sorted_entries_stable_witness:
  "fractional_distribution 1 [(''mcq'', 1/2), (''tf'', 1/2)] [(''basic'', 1)] [(''remember'', 1)]
     = [(''mcq_basic_remember'',
        \<lparr>question_type = ''mcq'', difficulty = ''basic'', blooms_level = ''remember'',
         count = 0, exact_count = 1/2\<rparr>),
       (''tf_basic_remember'',
        \<lparr>question_type = ''tf'', difficulty = ''basic'', blooms_level = ''remember'',
         count = 0, exact_count = 1/2\<rparr>)] \<and>
   distinct (map fst [(''mcq_basic_remember'',
        \<lparr>question_type = ''mcq'', difficulty = ''basic'', blooms_level = ''remember'',
         count = 0, exact_count = 1/2\<rparr>),
       (''tf_basic_remember'',
        \<lparr>question_type = ''tf'', difficulty = ''basic'', blooms_level = ''remember'',
         count = 0, exact_count = 1/2\<rparr>)]) \<and>
   filter (\<lambda>(k, it). fractional_part it = 1/2) (sorted_entries [(''mcq_basic_remember'',
        \<lparr>question_type = ''mcq'', difficulty = ''basic'', blooms_level = ''remember'',
         count = 0, exact_count = 1/2\<rparr>),
       (''tf_basic_remember'',
        \<lparr>question_type = ''tf'', difficulty = ''basic'', blooms_level = ''remember'',
         count = 0, exact_count = 1/2\<rparr>)]) = [(''mcq_basic_remember'',
        \<lparr>question_type = ''mcq'', difficulty = ''basic'', blooms_level = ''remember'',
         count = 0, exact_count = 1/2\<rparr>),
       (''tf_basic_remember'',
        \<lparr>question_type = ''tf'', difficulty = ''basic'', blooms_level = ''remember'',
         count = 0, exact_count = 1/2\<rparr>)] \<and>
   map_of (distribute_remainder 1 [(''mcq_basic_remember'',
        \<lparr>question_type = ''mcq'', difficulty = ''basic'', blooms_level = ''remember'',
         count = 0, exact_count = 1/2\<rparr>),
       (''tf_basic_remember'',
        \<lparr>question_type = ''tf'', difficulty = ''basic'', blooms_level = ''remember'',
         count = 0, exact_count = 1/2\<rparr>)]) ''mcq_basic_remember''
     = Some \<lparr>question_type = ''mcq'', difficulty = ''basic'', blooms_level = ''remember'',
         count = 1, exact_count = 1/2\<rparr> \<and>
   map_of (distribute_remainder 1 [(''mcq_basic_remember'',
        \<lparr>question_type = ''mcq'', difficulty = ''basic'', blooms_level = ''remember'',
         count = 0, exact_count = 1/2\<rparr>),
       (''tf_basic_remember'',
        \<lparr>question_type = ''tf'', difficulty = ''basic'', blooms_level = ''remember'',
         count = 0, exact_count = 1/2\<rparr>)]) ''tf_basic_remember''
     = Some \<lparr>question_type = ''tf'', difficulty = ''basic'', blooms_level = ''remember'',
         count = 0, exact_count = 1/2\<rparr>"
proof -
  let ?fd = "[(''mcq_basic_remember'',
        \<lparr>question_type = ''mcq'', difficulty = ''basic'', blooms_level = ''remember'',
         count = 0, exact_count = 1/2\<rparr>),
       (''tf_basic_remember'',
        \<lparr>question_type = ''tf'', difficulty = ''basic'', blooms_level = ''remember'',
         count = 0, exact_count = 1/2\<rparr>)]"
  note th = sorted_entries_stable[of ?fd 1]
  have fd: "fractional_distribution 1 [(''mcq'', 1/2), (''tf'', 1/2)] [(''basic'', 1)]
      [(''remember'', 1)] = ?fd"
    by (simp add: fractional_distribution_def assignments_def combo_key_def py_int_def)
  have d: "distinct (map fst ?fd)" by simp
  have sk: "sorted_keys ?fd = [''mcq_basic_remember'', ''tf_basic_remember'']"
    by (simp add: sorted_keys_def sorted_entries_def fractional_part_def)
  from th[THEN conjunct2, THEN conjunct1, THEN spec, of "1/2"]
  have f: "filter (\<lambda>(k, it). fractional_part it = 1/2) (sorted_entries ?fd) = ?fd"
    by (simp add: fractional_part_def)
  note m = th[THEN conjunct2, THEN conjunct2, THEN conjunct2, THEN mp, OF d]
  from m[THEN spec, of "''mcq_basic_remember''"] sk
  have a: "map_of (distribute_remainder 1 ?fd) ''mcq_basic_remember''
     = Some \<lparr>question_type = ''mcq'', difficulty = ''basic'', blooms_level = ''remember'',
         count = 1, exact_count = 1/2\<rparr>"
    by simp
  from m[THEN spec, of "''tf_basic_remember''"] sk
  have b: "map_of (distribute_remainder 1 ?fd) ''tf_basic_remember''
     = Some \<lparr>question_type = ''tf'', difficulty = ''basic'', blooms_level = ''remember'',
         count = 0, exact_count = 1/2\<rparr>"
    by simp
  from fd d f a b show ?thesis by blast
qed


section \<open>Properties of the grouper\<close>

subsection \<open>Where the configurations of a bucket come from\<close>



















lemma keys_assignments:
  "map fst (assignments N qd dd bd) =
   map (\<lambda>(q, d, b). combo_key q d b)
     (List.product (map fst qd) (List.product (map fst dd) (map fst bd)))"
proof -
  have inner: "map fst (map (\<lambda>(b, br). (combo_key q d b, h b br)) bd)
      = map (\<lambda>b. combo_key q d b) (map fst bd)" for q d and h :: "string \<Rightarrow> real \<Rightarrow> item"
    by (induction bd) auto
  have mid: "map fst (concat (map (\<lambda>(d, dr). map (\<lambda>(b, br). (combo_key q d b, h d dr b br)) bd) dd))
      = map (\<lambda>(d, b). combo_key q d b) (List.product (map fst dd) (map fst bd))"
    for q and h :: "string \<Rightarrow> real \<Rightarrow> string \<Rightarrow> real \<Rightarrow> item"
  proof (induction dd)
    case Nil
    then show ?case by simp
  next
    case (Cons a dd)
    obtain d dr where a: "a = (d, dr)" by (cases a)
    show ?case using Cons inner[of q d "h d dr"] by (simp add: a comp_def)
  qed
  show ?thesis unfolding assignments_def
  proof (induction qd)
    case Nil
    then show ?case by simp
  next
    case (Cons a qd)
    obtain q qr where a: "a = (q, qr)" by (cases a)
    show ?case
      using Cons mid[of q "\<lambda>d dr b br. \<lparr>question_type = q, difficulty = d, blooms_level = b,
        count = py_int (of_int N * qr * dr * br),
        exact_count = of_int N * qr * dr * br\<rparr>"]
      by (simp add: a comp_def split_def)
  qed
qed



subsection \<open>When the combination keys are distinct\<close>

text \<open>
  The key of a combination is the three labels joined by underscores. The keys are
  pairwise distinct when every dict has distinct labels (as a dict has) and no kind or
  difficulty label contains an underscore; the labels of the request's defaults are of
  that form. Labels with underscores can collide: the kinds \<open>a\<close> and \<open>a_b\<close> with the
  difficulties \<open>b_c\<close> and \<open>c\<close> give the key \<open>a_b_c_x\<close> twice, the later assignment
  overwrites the earlier one, and for the total 16 the returned counts sum to 15.
\<close>

lemma split_at_separator:
  "c \<notin> set x \<Longrightarrow> c \<notin> set x' \<Longrightarrow> x @ c # r = x' @ c # r' \<Longrightarrow> x = x' \<and> r = r'"
proof (induction x arbitrary: x')
  case Nil
  then show ?case by (cases x') auto
next
  case (Cons a x)
  then show ?case by (cases x') auto
qed

lemma combo_key_inj:
  assumes "CHR ''_'' \<notin> set q" "CHR ''_'' \<notin> set q'" "CHR ''_'' \<notin> set d" "CHR ''_'' \<notin> set d'"
    and "combo_key q d b = combo_key q' d' b'"
  shows "q = q' \<and> d = d' \<and> b = b'"
proof -
  from assms(5) have "q @ CHR ''_'' # (d @ CHR ''_'' # b) = q' @ CHR ''_'' # (d' @ CHR ''_'' # b')"
    by (simp add: combo_key_def)
  from split_at_separator[OF assms(1,2) this]
  have 1: "q = q'" and "d @ CHR ''_'' # b = d' @ CHR ''_'' # b'" by simp_all
  from split_at_separator[OF assms(3,4) this(2)] 1 show ?thesis by simp
qed

lemma combo_keys_distinct:
  assumes "distinct (map fst qd)" "distinct (map fst dd)" "distinct (map fst bd)"
    and "\<forall>q \<in> set (map fst qd). CHR ''_'' \<notin> set q"
    and "\<forall>d \<in> set (map fst dd). CHR ''_'' \<notin> set d"
  shows "distinct (map fst (assignments N qd dd bd))"
proof -
  let ?P = "List.product (map fst qd) (List.product (map fst dd) (map fst bd))"
  have "distinct ?P" using assms(1-3) by (simp add: distinct_product)
  moreover have "inj_on (\<lambda>(q, d, b). combo_key q d b) (set ?P)"
  proof (rule inj_onI)
    fix x y assume x: "x \<in> set ?P" and y: "y \<in> set ?P"
      and e: "(\<lambda>(q, d, b). combo_key q d b) x = (\<lambda>(q, d, b). combo_key q d b) y"
    obtain q d b where xx: "x = (q, d, b)" by (cases x)
    obtain q' d' b' where yy: "y = (q', d', b')" by (cases y)
    from x y assms(4,5) have "CHR ''_'' \<notin> set q" "CHR ''_'' \<notin> set q'"
      "CHR ''_'' \<notin> set d" "CHR ''_'' \<notin> set d'" by (auto simp: xx yy)
    from combo_key_inj[OF this] e show "x = y" by (simp add: xx yy)
  qed
  ultimately show ?thesis by (simp add: keys_assignments distinct_map)
qed

lemma key_collision_example:
  "total_count (calculate_question_distribution 16 [(''a'', 1/2), (''a_b'', 1/2)]
      [(''b_c'', 1/2), (''c'', 1/2)] [(''x'', 1)]) = 15"
  by code_simp

subsection \<open>C5: grouping and re-expansion\<close>







section \<open>Properties of the artifact names\<close>

subsection \<open>C8: the name as a function of its inputs\<close>










section \<open>Properties of the shared context provider\<close>

subsection \<open>C10: every outcome of the retrieval becomes a string\<close>

text \<open>
  C10: \<^verbatim>\<open>generate_content_summary_sync\<close> returns a string whatever the retrieval does.
  When the retrieval raises, the string is \<open>Error retrieving content for chapter\<close>,
  the chapter id and the exception's message; when nothing was retrieved (\<^verbatim>\<open>None\<close> or
  the empty text) it is \<open>No content available for the specified chapter.\<close>; otherwise it
  is the first 2000 characters of the content, followed by the truncation marker exactly
  when the content is longer than 2000 characters.
\<close>

theorem generate_content_summary_sync_total:
  "(\<forall>msg. retrieve_chapter_chunks os ch 100000 = Inl msg \<longrightarrow>
      generate_content_summary_sync os ch
        = ''Error retrieving content for chapter '' @ ch @ '': '' @ msg) \<and>
   (retrieve_chapter_chunks os ch 100000 = Inr None \<or>
    retrieve_chapter_chunks os ch 100000 = Inr (Some []) \<longrightarrow>
      generate_content_summary_sync os ch = ''No content available for the specified chapter.'') \<and>
   (\<forall>c. retrieve_chapter_chunks os ch 100000 = Inr (Some c) \<and> c \<noteq> [] \<longrightarrow>
      generate_content_summary_sync os ch
        = take 2000 c @ (if 2000 < length c then summary_marker else []))"
  by (auto simp: generate_content_summary_sync_def Let_def min_def)


theorem generate_content_summary_sync_total_witness:
  "retrieve_chapter_chunks (\<lambda>c. SearchRaises ''down'') ''ch01'' 100000 = Inl ''down'' \<and>
   generate_content_summary_sync (\<lambda>c. SearchRaises ''down'') ''ch01''
     = ''Error retrieving content for chapter ch01: down'' \<and>
   retrieve_chapter_chunks (\<lambda>c. SearchNone) ''ch01'' 100000 = Inr None \<and>
   generate_content_summary_sync (\<lambda>c. SearchNone) ''ch01''
     = ''No content available for the specified chapter.'' \<and>
   retrieve_chapter_chunks (\<lambda>c. SearchText (replicate 2001 (CHR ''x''))) ''ch01'' 100000
     = Inr (Some (replicate 2001 (CHR ''x''))) \<and>
   generate_content_summary_sync (\<lambda>c. SearchText (replicate 2001 (CHR ''x''))) ''ch01''
     = replicate 2000 (CHR ''x'') @ summary_marker \<and>
   retrieve_chapter_chunks (\<lambda>c. SearchText ''abc'') ''ch01'' 100000 = Inr (Some ''abc'') \<and>
   generate_content_summary_sync (\<lambda>c. SearchText ''abc'') ''ch01'' = ''abc''"
proof -
  have r1: "retrieve_chapter_chunks (\<lambda>c. SearchRaises ''down'') ''ch01'' 100000 = Inl ''down''"
    and r2: "retrieve_chapter_chunks (\<lambda>c. SearchNone) ''ch01'' 100000 = Inr None"
    and r3: "retrieve_chapter_chunks (\<lambda>c. SearchText (replicate 2001 (CHR ''x''))) ''ch01'' 100000
     = Inr (Some (replicate 2001 (CHR ''x'')))"
    and r4: "retrieve_chapter_chunks (\<lambda>c. SearchText ''abc'') ''ch01'' 100000 = Inr (Some ''abc'')"
    by (simp_all add: retrieve_chapter_chunks_def)
  from generate_content_summary_sync_total[of "\<lambda>c. SearchRaises ''down''" "''ch01''"] r1
  have a: "generate_content_summary_sync (\<lambda>c. SearchRaises ''down'') ''ch01''
     = ''Error retrieving content for chapter ch01: down''" by simp
  from generate_content_summary_sync_total[of "\<lambda>c. SearchNone" "''ch01''"] r2
  have b: "generate_content_summary_sync (\<lambda>c. SearchNone) ''ch01''
     = ''No content available for the specified chapter.''" by simp
  from generate_content_summary_sync_total[of "\<lambda>c. SearchText (replicate 2001 (CHR ''x''))" "''ch01''"] r3
  have c: "generate_content_summary_sync (\<lambda>c. SearchText (replicate 2001 (CHR ''x''))) ''ch01''
     = replicate 2000 (CHR ''x'') @ summary_marker" by simp
  from generate_content_summary_sync_total[of "\<lambda>c. SearchText ''abc''" "''ch01''"] r4
  have d: "generate_content_summary_sync (\<lambda>c. SearchText ''abc'') ''ch01'' = ''abc''" by simp
  from r1 a r2 b r3 c r4 d show ?thesis by blast
qed


section \<open>Properties of the orchestrator\<close>

subsection \<open>The calls, the response and the history record\<close>


lemma calls_generate_questions:
  "o_calls (generate_questions e req)
     = FetchSummary (chapter_id req) # map SubmitWorker (submitted_tasks e req)"
  by (simp add: generate_questions_def Let_def split: prod.splits option.splits)

lemma summary_of_tasks:
  "t \<in> set (submitted_tasks e req) \<Longrightarrow>
   t_content_summary t = generate_content_summary_sync (opensearch e) (chapter_id req)"
  by (auto simp: submitted_tasks_def Let_def make_task_def)

lemma kinds_of_tasks:
  "map t_question_type (submitted_tasks e req)
     = map fst (group_by_type (calculate_question_distribution (total_questions req)
         (question_type_distribution req) (difficulty_distribution req)
         (blooms_taxonomy_distribution req)))"
  by (simp add: submitted_tasks_def Let_def make_task_def comp_def)

lemma filter_is_fetch_submit: "filter is_fetch (map SubmitWorker ts) = []"
  by (induction ts) auto



subsection \<open>A request for two kinds, evaluated\<close>

text \<open>
  The request used in the examples below: two items, the kinds \<open>mcq\<close> and \<open>fib\<close> with
  the weight 0.5 each, one difficulty and one level. The allocation gives each kind one
  item, so two workers are submitted.
\<close>

lemma example_allocation: "calculate_question_distribution 2 [(''mcq'', 1/2), (''fib'', 1/2)]
     [(''basic'', 1)] [(''remember'', 1)]
   = [(''mcq_basic_remember'', \<lparr>question_type = ''mcq'', difficulty = ''basic'',
          blooms_level = ''remember'', count = 1\<rparr>),
      (''fib_basic_remember'', \<lparr>question_type = ''fib'', difficulty = ''basic'',
          blooms_level = ''remember'', count = 1\<rparr>)]"
  by code_simp

lemma example_groups: "group_by_type [(''mcq_basic_remember'', \<lparr>question_type = ''mcq'', difficulty = ''basic'',
          blooms_level = ''remember'', count = 1\<rparr>),
      (''fib_basic_remember'', \<lparr>question_type = ''fib'', difficulty = ''basic'',
          blooms_level = ''remember'', count = 1\<rparr>)]
   = [(''mcq'', [\<lparr>question_type = ''mcq'', difficulty = ''basic'',
          blooms_level = ''remember'', count = 1\<rparr>]),
      (''fib'', [\<lparr>question_type = ''fib'', difficulty = ''basic'',
          blooms_level = ''remember'', count = 1\<rparr>])]"
  by (simp add: group_by_type_def)

lemma example_sub_distributions: "difficulty_dist_for_type [\<lparr>question_type = k, difficulty = ''basic'',
          blooms_level = ''remember'', count = 1\<rparr>] = [(''basic'', 1)]"
  "blooms_dist_for_type [\<lparr>question_type = k, difficulty = ''basic'',
          blooms_level = ''remember'', count = 1\<rparr>] = [(''remember'', 1)]"
  by (simp_all add: difficulty_dist_for_type_def blooms_dist_for_type_def total_for_type_def)

lemma example_names:
  "file_name [''learning_objectives''] ''ch01'' [(''basic'', 1)] [(''remember'', 1)] NoObjectives ''mcq''
     = Some ''ch01_basic100_remember100_mcqs.json''"
  "file_name [''learning_objectives''] ''ch01'' [(''basic'', 1)] [(''remember'', 1)] NoObjectives ''fib''
     = Some ''ch01_basic100_remember100_fib.json''"
  by code_simp+
lemma example_tasks:
  "submitted_tasks e
     \<lparr>chapter_id = ''ch01'', learning_objectives = NoObjectives, total_questions = 2,
      question_type_distribution = [(''mcq'', 1/2), (''fib'', 1/2)],
      difficulty_distribution = [(''basic'', 1)],
      blooms_taxonomy_distribution = [(''remember'', 1)]\<rparr>
   = [\<lparr>t_question_type = ''mcq'',
       t_configs = [\<lparr>question_type = ''mcq'', difficulty = ''basic'',
                      blooms_level = ''remember'', count = 1\<rparr>],
       t_content_summary = generate_content_summary_sync (opensearch e) ''ch01'', t_chapter_id = ''ch01'',
       t_learning_objectives = NoObjectives,
       t_difficulty_distribution = [(''basic'', 1)],
       t_blooms_distribution = [(''remember'', 1)]\<rparr>,
      \<lparr>t_question_type = ''fib'',
       t_configs = [\<lparr>question_type = ''fib'', difficulty = ''basic'',
                      blooms_level = ''remember'', count = 1\<rparr>],
       t_content_summary = generate_content_summary_sync (opensearch e) ''ch01'', t_chapter_id = ''ch01'',
       t_learning_objectives = NoObjectives,
       t_difficulty_distribution = [(''basic'', 1)],
       t_blooms_distribution = [(''remember'', 1)]\<rparr>]"
  by (simp add: submitted_tasks_def Let_def make_task_def example_allocation example_groups example_sub_distributions)

lemma example_summaries:
  "generate_content_summary_sync (\<lambda>c. SearchText ''abc'') ''ch01'' = ''abc''"
  "generate_content_summary_sync (\<lambda>c. SearchRaises ''down'') ''ch01''
     = ''Error retrieving content for chapter ch01: down''"
  by (simp_all add: generate_content_summary_sync_def retrieve_chapter_chunks_def)


subsection \<open>C9: one fetch, before the workers, shared by all of them\<close>

text \<open>
  C9: in every run of \<^verbatim>\<open>generate_questions\<close> the coordinator's first call is the one
  call of \<^verbatim>\<open>generate_content_summary_sync\<close>; the submissions of the workers follow
  it, one per kind of the grouped allocation however many kinds there are; and every
  submitted task carries the string that call returned.
\<close>

theorem summary_fetched_once_before_workers:
  "o_calls (generate_questions e req)
     = FetchSummary (chapter_id req) # map SubmitWorker (submitted_tasks e req) \<and>
   length (filter is_fetch (o_calls (generate_questions e req))) = 1 \<and>
   (\<forall>t \<in> set (submitted_tasks e req).
      t_content_summary t = generate_content_summary_sync (opensearch e) (chapter_id req)) \<and>
   map t_question_type (submitted_tasks e req)
     = map fst (group_by_type (calculate_question_distribution (total_questions req)
         (question_type_distribution req) (difficulty_distribution req)
         (blooms_taxonomy_distribution req)))"
  using summary_of_tasks[of _ e req] kinds_of_tasks[of e req]
  by (simp add: calls_generate_questions filter_is_fetch_submit)


theorem summary_fetched_once_before_workers_witness:
  "submitted_tasks
     \<lparr>opensearch = (\<lambda>c. SearchText ''abc''), synthesize = (\<lambda>t. Inr [''q'']),
      available_keys = [''learning_objectives''], unbound_local_message = ''unbound'',
      history_table = True, events_table = True\<rparr>
     \<lparr>chapter_id = ''ch01'', learning_objectives = NoObjectives, total_questions = 2,
      question_type_distribution = [(''mcq'', 1/2), (''fib'', 1/2)],
      difficulty_distribution = [(''basic'', 1)],
      blooms_taxonomy_distribution = [(''remember'', 1)]\<rparr>
   = [\<lparr>t_question_type = ''mcq'',
       t_configs = [\<lparr>question_type = ''mcq'', difficulty = ''basic'',
                      blooms_level = ''remember'', count = 1\<rparr>],
       t_content_summary = ''abc'', t_chapter_id = ''ch01'',
       t_learning_objectives = NoObjectives,
       t_difficulty_distribution = [(''basic'', 1)],
       t_blooms_distribution = [(''remember'', 1)]\<rparr>,
      \<lparr>t_question_type = ''fib'',
       t_configs = [\<lparr>question_type = ''fib'', difficulty = ''basic'',
                      blooms_level = ''remember'', count = 1\<rparr>],
       t_content_summary = ''abc'', t_chapter_id = ''ch01'',
       t_learning_objectives = NoObjectives,
       t_difficulty_distribution = [(''basic'', 1)],
       t_blooms_distribution = [(''remember'', 1)]\<rparr>] \<and>
   o_calls (generate_questions
     \<lparr>opensearch = (\<lambda>c. SearchText ''abc''), synthesize = (\<lambda>t. Inr [''q'']),
      available_keys = [''learning_objectives''], unbound_local_message = ''unbound'',
      history_table = True, events_table = True\<rparr>
     \<lparr>chapter_id = ''ch01'', learning_objectives = NoObjectives, total_questions = 2,
      question_type_distribution = [(''mcq'', 1/2), (''fib'', 1/2)],
      difficulty_distribution = [(''basic'', 1)],
      blooms_taxonomy_distribution = [(''remember'', 1)]\<rparr>)
   = [FetchSummary ''ch01'',
      SubmitWorker \<lparr>t_question_type = ''mcq'',
       t_configs = [\<lparr>question_type = ''mcq'', difficulty = ''basic'',
                      blooms_level = ''remember'', count = 1\<rparr>],
       t_content_summary = ''abc'', t_chapter_id = ''ch01'',
       t_learning_objectives = NoObjectives,
       t_difficulty_distribution = [(''basic'', 1)],
       t_blooms_distribution = [(''remember'', 1)]\<rparr>,
      SubmitWorker \<lparr>t_question_type = ''fib'',
       t_configs = [\<lparr>question_type = ''fib'', difficulty = ''basic'',
                      blooms_level = ''remember'', count = 1\<rparr>],
       t_content_summary = ''abc'', t_chapter_id = ''ch01'',
       t_learning_objectives = NoObjectives,
       t_difficulty_distribution = [(''basic'', 1)],
       t_blooms_distribution = [(''remember'', 1)]\<rparr>] \<and>
   generate_content_summary_sync (\<lambda>c. SearchText ''abc'') ''ch01'' = ''abc''"
proof -
  let ?e = "\<lparr>opensearch = (\<lambda>c. SearchText ''abc''), synthesize = (\<lambda>t. Inr [''q'']),
      available_keys = [''learning_objectives''], unbound_local_message = ''unbound'',
      history_table = True, events_table = True\<rparr>"
  let ?r = "\<lparr>chapter_id = ''ch01'', learning_objectives = NoObjectives, total_questions = 2,
      question_type_distribution = [(''mcq'', 1/2), (''fib'', 1/2)],
      difficulty_distribution = [(''basic'', 1)],
      blooms_taxonomy_distribution = [(''remember'', 1)]\<rparr>"
  note th = summary_fetched_once_before_workers[of ?e ?r]
  have st: "submitted_tasks ?e ?r
   = [\<lparr>t_question_type = ''mcq'',
       t_configs = [\<lparr>question_type = ''mcq'', difficulty = ''basic'',
                      blooms_level = ''remember'', count = 1\<rparr>],
       t_content_summary = ''abc'', t_chapter_id = ''ch01'',
       t_learning_objectives = NoObjectives,
       t_difficulty_distribution = [(''basic'', 1)],
       t_blooms_distribution = [(''remember'', 1)]\<rparr>,
      \<lparr>t_question_type = ''fib'',
       t_configs = [\<lparr>question_type = ''fib'', difficulty = ''basic'',
                      blooms_level = ''remember'', count = 1\<rparr>],
       t_content_summary = ''abc'', t_chapter_id = ''ch01'',
       t_learning_objectives = NoObjectives,
       t_difficulty_distribution = [(''basic'', 1)],
       t_blooms_distribution = [(''remember'', 1)]\<rparr>]"
    by (simp add: example_tasks example_summaries)
  from th[THEN conjunct1] st
  have c: "o_calls (generate_questions ?e ?r)
   = [FetchSummary ''ch01'',
      SubmitWorker \<lparr>t_question_type = ''mcq'',
       t_configs = [\<lparr>question_type = ''mcq'', difficulty = ''basic'',
                      blooms_level = ''remember'', count = 1\<rparr>],
       t_content_summary = ''abc'', t_chapter_id = ''ch01'',
       t_learning_objectives = NoObjectives,
       t_difficulty_distribution = [(''basic'', 1)],
       t_blooms_distribution = [(''remember'', 1)]\<rparr>,
      SubmitWorker \<lparr>t_question_type = ''fib'',
       t_configs = [\<lparr>question_type = ''fib'', difficulty = ''basic'',
                      blooms_level = ''remember'', count = 1\<rparr>],
       t_content_summary = ''abc'', t_chapter_id = ''ch01'',
       t_learning_objectives = NoObjectives,
       t_difficulty_distribution = [(''basic'', 1)],
       t_blooms_distribution = [(''remember'', 1)]\<rparr>]"
    by simp
  from st c example_summaries(1) show ?thesis by blast
qed


subsection \<open>C4: a failing context fetch\<close>







subsection \<open>C2: a failing worker and the history record\<close>

text \<open>
  C2 holds for the returned response and for the per-question events, and is broken by
  the history record. The worker for \<open>mcq\<close> succeeds and the worker for \<open>fib\<close>
  fails; the loop over the results has appended the \<open>mcq\<close> file and questions to its
  two accumulators before it raises on the \<open>fib\<close> result; the response is the error
  tagged with \<open>fib\<close> and no event is written, but the \<^verbatim>\<open>finally\<close> block writes the
  accumulators as they are, so the history record of the failed request holds the
  \<open>mcq\<close> file name and the \<open>mcq\<close> questions.
\<close>

theorem history_keeps_sibling_items:
  "o_response (generate_questions
     \<lparr>opensearch = (\<lambda>c. SearchText ''abc''), synthesize = (\<lambda>t. if t_question_type t = ''mcq'' then Inr [''q1''] else Inl ''boom''),
      available_keys = [''learning_objectives''], unbound_local_message = ''unbound'',
      history_table = True, events_table = True\<rparr>
     \<lparr>chapter_id = ''ch01'', learning_objectives = NoObjectives, total_questions = 2,
      question_type_distribution = [(''mcq'', 1/2), (''fib'', 1/2)],
      difficulty_distribution = [(''basic'', 1)],
      blooms_taxonomy_distribution = [(''remember'', 1)]\<rparr>)
   = Inl ''Error generating questions: Error in fib: boom'' \<and>
   o_history (generate_questions
     \<lparr>opensearch = (\<lambda>c. SearchText ''abc''), synthesize = (\<lambda>t. if t_question_type t = ''mcq'' then Inr [''q1''] else Inl ''boom''),
      available_keys = [''learning_objectives''], unbound_local_message = ''unbound'',
      history_table = True, events_table = True\<rparr>
     \<lparr>chapter_id = ''ch01'', learning_objectives = NoObjectives, total_questions = 2,
      question_type_distribution = [(''mcq'', 1/2), (''fib'', 1/2)],
      difficulty_distribution = [(''basic'', 1)],
      blooms_taxonomy_distribution = [(''remember'', 1)]\<rparr>)
   = Some \<lparr>h_status = ''error'', h_error_message = ''Error in fib: boom'',
           h_files_generated = [Some ''ch01_basic100_remember100_mcqs.json''],
           h_response_data = [(''mcq'', Some [''q1''])]\<rparr> \<and>
   o_events (generate_questions
     \<lparr>opensearch = (\<lambda>c. SearchText ''abc''), synthesize = (\<lambda>t. if t_question_type t = ''mcq'' then Inr [''q1''] else Inl ''boom''),
      available_keys = [''learning_objectives''], unbound_local_message = ''unbound'',
      history_table = True, events_table = True\<rparr>
     \<lparr>chapter_id = ''ch01'', learning_objectives = NoObjectives, total_questions = 2,
      question_type_distribution = [(''mcq'', 1/2), (''fib'', 1/2)],
      difficulty_distribution = [(''basic'', 1)],
      blooms_taxonomy_distribution = [(''remember'', 1)]\<rparr>) = []"
  by (simp add: generate_questions_def Let_def example_tasks example_summaries
      generate_single_question_type_sync_def example_names)

end
